theory Spec2Isabelle
  imports Main
begin

section \<open>The bottom sheet modal controller\<close>

text \<open>
  A shallow embedding of \<^verbatim>\<open>src/components/bottomSheetModal/BottomSheetModal.tsx\<close>.
  The component keeps one piece of React state (\<^verbatim>\<open>mount\<close>) and five refs; its callbacks
  mutate them and call out to three collaborators: the sheet engine (through
  \<^verbatim>\<open>bottomSheetRef.current?.\<close>), the host mounting mechanism (\<^verbatim>\<open>mountSheet\<close>,
  \<^verbatim>\<open>unmountSheet\<close>, \<^verbatim>\<open>willUnmountSheet\<close>, \<^verbatim>\<open>unmountPortal\<close>) and the caller
  (\<^verbatim>\<open>onChange\<close>, \<^verbatim>\<open>onDismiss\<close>). Every callback is a function from the state to the
  new state and the list of calls it made to the collaborators, in order.

  Indices are JavaScript numbers that hold integers; they are modelled as \<open>int\<close>, which is
  exact for every index a snap point list can have. The argument of \<^verbatim>\<open>snapTo\<close> is not
  such an index but any number the caller passes, so the sum \<^verbatim>\<open>handleSnapTo\<close> takes is
  modelled as the addition of doubles (\<open>jsAdd\<close> below).
\<close>

subsection \<open>Props\<close>

datatype snap_point = SnapNumber int | SnapString string

text \<open>
  The props after destructuring, defaults applied. An optional callback is the flag that
  it was supplied (\<^verbatim>\<open>if (_providedOnDismiss)\<close>). \<open>nanoid\<close> is the identifier that
  \<^verbatim>\<open>nanoid()\<close> returns for this instance.
\<close>

record props =
  name :: "string option"
  nanoid :: string
  dismissOnPanDown :: bool
  providedOnDismiss :: bool
  providedIndex :: int
  providedSnapPoints :: "snap_point list"
  providedOnChange :: bool

subsection \<open>State\<close>

text \<open>
  \<open>bottomSheetRef\<close> tells whether \<^verbatim>\<open>bottomSheetRef.current\<close> is a sheet instance
  (it starts as \<^verbatim>\<open>null\<close>). \<open>frames\<close> is the queue of callbacks handed to
  \<^verbatim>\<open>requestAnimationFrame\<close> and not yet run, each with the \<^verbatim>\<open>index\<close> and
  \<^verbatim>\<open>key\<close> it closed over.
\<close>

record modal =
  mount :: bool
  bottomSheetRef :: bool
  isMinimized :: bool
  isForcedDismissed :: bool
  currentIndexRef :: int
  nextIndexRef :: int
  frames :: "(int \<times> string) list"

datatype effect =
    EngineClose
  | EngineSnapTo int "bool option"
  | EngineExpand
  | MountSheet string
  | UnmountSheet string
  | WillUnmountSheet string
  | UnmountPortal string
  | OnChange int
  | OnDismiss

definition initial :: modal where
  "initial = \<lparr>mount = False, bottomSheetRef = False, isMinimized = False,
     isForcedDismissed = False, currentIndexRef = - 1, nextIndexRef = - 1, frames = []\<rparr>"

subsection \<open>Variables\<close>

definition key :: "props \<Rightarrow> string" where
  "key p = (case name p of
              None \<Rightarrow> ''bottom-sheet-modal-'' @ nanoid p
            | Some n \<Rightarrow> if n = [] then ''bottom-sheet-modal-'' @ nanoid p else n)"

definition index :: "props \<Rightarrow> int" where
  "index p = (if dismissOnPanDown p then providedIndex p + 1 else providedIndex p)"

definition snapPoints :: "props \<Rightarrow> snap_point list" where
  "snapPoints p =
     (if dismissOnPanDown p then SnapNumber 0 # providedSnapPoints p else providedSnapPoints p)"

text \<open>The local constant \<^verbatim>\<open>adjustedIndex\<close> of \<^verbatim>\<open>handleOnChange\<close>.\<close>

definition adjustedIndex :: "props \<Rightarrow> int \<Rightarrow> int" where
  "adjustedIndex p i = (if dismissOnPanDown p then i - 1 else i)"

subsection \<open>Number addition\<close>

text \<open>
  A JavaScript number is an IEEE double. Every integer of magnitude up to \<open>2^53\<close> is
  one; above, the doubles are the multiples of \<open>ulp\<close>, the power of two that leaves 53
  significant bits. The sum of two integer-valued doubles is the double nearest to the
  exact sum, the one with the even significand when two are equally near. (The sums taken
  here stay below the largest double, so none overflows.)
\<close>

function ulp :: "int \<Rightarrow> int" where
  "ulp a = (if a < 9007199254740992 then 1 else 2 * ulp (a div 2))"
  by pat_completeness auto
termination
  by (relation "measure nat") simp_all

declare ulp.simps [simp del]

definition roundDouble :: "int \<Rightarrow> int" where
  "roundDouble x =
     (let a = \<bar>x\<bar>; q = ulp a; lo = (a div q) * q; r = a mod q
      in sgn x * (if 2 * r < q then lo
                  else if q < 2 * r then lo + q
                  else if even (a div q) then lo else lo + q))"

definition jsAdd :: "int \<Rightarrow> int \<Rightarrow> int" where
  "jsAdd x y = roundDouble (x + y)"

subsection \<open>Callbacks\<close>

text \<open>A call \<^verbatim>\<open>bottomSheetRef.current?.f(...)\<close>: made when the ref holds an instance.\<close>

definition engine :: "modal \<Rightarrow> effect \<Rightarrow> effect list" where
  "engine s c = (if bottomSheetRef s then [c] else [])"

definition doDismiss :: "props \<Rightarrow> modal \<Rightarrow> modal \<times> effect list" where
  "doDismiss p s =
     (s\<lparr>isMinimized := False, isForcedDismissed := False,
        currentIndexRef := - 1, nextIndexRef := - 1, mount := False\<rparr>,
      [UnmountSheet (key p), UnmountPortal (key p)]
        @ (if providedOnDismiss p then [OnDismiss] else []))"

definition handleOnChange :: "props \<Rightarrow> int \<Rightarrow> modal \<Rightarrow> modal \<times> effect list" where
  "handleOnChange p i s =
     (if isMinimized s \<and> \<not> isForcedDismissed s then (s, [])
      else
        let s' = s\<lparr>currentIndexRef := i, nextIndexRef := i\<rparr> in
        if adjustedIndex p i \<ge> 0
        then (s', if providedOnChange p then [OnChange (adjustedIndex p i)] else [])
        else doDismiss p s')"

subsection \<open>Public methods\<close>

definition handlePresent :: "props \<Rightarrow> modal \<Rightarrow> modal \<times> effect list" where
  "handlePresent p s = (s\<lparr>frames := frames s @ [(index p, key p)]\<rparr>, [])"

text \<open>The callback that \<^verbatim>\<open>handlePresent\<close> hands to \<^verbatim>\<open>requestAnimationFrame\<close>.\<close>

definition presentFrame :: "int \<times> string \<Rightarrow> modal \<Rightarrow> modal \<times> effect list" where
  "presentFrame c s = (s\<lparr>nextIndexRef := fst c, mount := True\<rparr>, [MountSheet (snd c)])"

definition handleDismiss :: "props \<Rightarrow> bool \<Rightarrow> modal \<Rightarrow> modal \<times> effect list" where
  "handleDismiss p force s =
     (if force \<and> isMinimized s then doDismiss p s
      else
        let s1 = (if force then s\<lparr>isForcedDismissed := True, isMinimized := False\<rparr> else s);
            out1 = (if force then [] else [WillUnmountSheet (key p)]);
            s2 = s1\<lparr>nextIndexRef := - 1\<rparr>
        in (s2, out1 @ engine s2 EngineClose))"

definition handleClose :: "modal \<Rightarrow> modal \<times> effect list" where
  "handleClose s =
     (if isMinimized s then (s, [])
      else let s' = s\<lparr>nextIndexRef := - 1\<rparr> in (s', engine s' EngineClose))"

definition handleCollapse :: "props \<Rightarrow> modal \<Rightarrow> modal \<times> effect list" where
  "handleCollapse p s =
     (if isMinimized s then (s, [])
      else let s' = s\<lparr>nextIndexRef := (if dismissOnPanDown p then 1 else 0)\<rparr>
           in (s', engine s' (EngineSnapTo (nextIndexRef s') None)))"

definition handleExpand :: "props \<Rightarrow> modal \<Rightarrow> modal \<times> effect list" where
  "handleExpand p s =
     (if isMinimized s then (s, [])
      else let s' = s\<lparr>nextIndexRef := int (length (snapPoints p)) - 1\<rparr>
           in (s', engine s' EngineExpand))"

definition handleSnapTo :: "props \<Rightarrow> int \<Rightarrow> modal \<Rightarrow> modal \<times> effect list" where
  "handleSnapTo p i s =
     (if isMinimized s then (s, [])
      else let s' = s\<lparr>nextIndexRef := jsAdd i (if dismissOnPanDown p then 1 else 0)\<rparr>
           in (s', engine s' (EngineSnapTo (nextIndexRef s') None)))"

subsection \<open>Private methods\<close>

definition handleMinimize :: "modal \<Rightarrow> modal \<times> effect list" where
  "handleMinimize s =
     (if \<not> isMinimized s
      then let s' = s\<lparr>isMinimized := True\<rparr> in (s', engine s' EngineClose)
      else (s, []))"

definition handleRestore :: "modal \<Rightarrow> modal \<times> effect list" where
  "handleRestore s =
     (if isMinimized s
      then let s' = s\<lparr>isMinimized := False\<rparr>
           in (s', engine s' (EngineSnapTo (nextIndexRef s') (Some True)))
      else (s, []))"

definition handleOnUnmount :: "props \<Rightarrow> modal \<Rightarrow> modal \<times> effect list" where
  "handleOnUnmount p s =
     (if currentIndexRef s \<noteq> - 1 then handleDismiss p True s else (s, []))"

subsection \<open>The event loop\<close>

text \<open>
  Everything runs on one thread, one event at a time: a method called through the
  imperative handle, a change reported by the engine (\<^verbatim>\<open>onChange={handleOnChange}\<close>),
  the host unmounting the portal, an animation frame (which runs the queued callbacks in
  order), and React committing a render, which sets \<^verbatim>\<open>bottomSheetRef.current\<close> to the
  sheet rendered when \<^verbatim>\<open>mount\<close> holds and to \<^verbatim>\<open>null\<close> otherwise.
\<close>

datatype event =
    Present
  | Dismiss bool
  | Close
  | SnapTo int
  | Expand
  | Collapse
  | Minimize
  | Restore
  | HostUnmount
  | EngineChange int
  | AnimationFrame
  | Commit

fun runFrames :: "(int \<times> string) list \<Rightarrow> modal \<Rightarrow> modal \<times> effect list" where
  "runFrames [] s = (s, [])"
| "runFrames (c # cs) s =
     (let (s1, out1) = presentFrame c s; (s2, out2) = runFrames cs s1 in (s2, out1 @ out2))"

fun step :: "props \<Rightarrow> event \<Rightarrow> modal \<Rightarrow> modal \<times> effect list" where
  "step p Present s = handlePresent p s"
| "step p (Dismiss force) s = handleDismiss p force s"
| "step p Close s = handleClose s"
| "step p (SnapTo i) s = handleSnapTo p i s"
| "step p Expand s = handleExpand p s"
| "step p Collapse s = handleCollapse p s"
| "step p Minimize s = handleMinimize s"
| "step p Restore s = handleRestore s"
| "step p HostUnmount s = handleOnUnmount p s"
| "step p (EngineChange i) s = handleOnChange p i s"
| "step p AnimationFrame s = runFrames (frames s) (s\<lparr>frames := []\<rparr>)"
| "step p Commit s = (s\<lparr>bottomSheetRef := mount s\<rparr>, [])"

fun run :: "props \<Rightarrow> event list \<Rightarrow> modal \<Rightarrow> modal \<times> effect list" where
  "run p [] s = (s, [])"
| "run p (e # es) s =
     (let (s1, out1) = step p e s; (s2, out2) = run p es s1 in (s2, out1 @ out2))"

text \<open>How often the caller's dismiss callback was invoked.\<close>

definition dismissals :: "effect list \<Rightarrow> nat" where
  "dismissals out = length (filter (\<lambda>e. e = OnDismiss) out)"

text \<open>Two configurations and a presented sheet, for the concrete instances below.\<close>

definition panProps :: props where
  "panProps = \<lparr>name = Some ''sheet'', nanoid = ''x1'', dismissOnPanDown = True,
     providedOnDismiss = True, providedIndex = 0,
     providedSnapPoints = [SnapNumber 300, SnapNumber 500], providedOnChange = True\<rparr>"

definition plainProps :: props where
  "plainProps = panProps\<lparr>dismissOnPanDown := False\<rparr>"

definition presented :: modal where
  "presented = \<lparr>mount = True, bottomSheetRef = True, isMinimized = False,
     isForcedDismissed = False, currentIndexRef = 1, nextIndexRef = 1, frames = []\<rparr>"

definition minimized :: modal where
  "minimized = presented\<lparr>isMinimized := True\<rparr>"

section \<open>Properties\<close>

subsection \<open>Auxiliary facts\<close>

lemma engine_attached: "bottomSheetRef s \<Longrightarrow> engine s c = [c]"
  by (simp add: engine_def)

lemma engine_detached: "\<not> bottomSheetRef s \<Longrightarrow> engine s c = []"
  by (simp add: engine_def)

text \<open>With no sheet attached, the commands reach no engine.\<close>

lemma commands_without_sheet:
  "\<not> bottomSheetRef s \<Longrightarrow>
     snd (handleClose s) = [] \<and> snd (handleCollapse p s) = [] \<and> snd (handleExpand p s) = []
     \<and> snd (handleSnapTo p i s) = [] \<and> snd (handleMinimize s) = []
     \<and> snd (handleRestore s) = []"
  by (simp add: handleClose_def handleCollapse_def handleExpand_def handleSnapTo_def
      handleMinimize_def handleRestore_def engine_def Let_def)

lemma ulp_small: "a < 9007199254740992 \<Longrightarrow> ulp a = 1"
  by (simp add: ulp.simps [of a])

lemma ulp_edge: "ulp 9007199254740992 = 2"
  by (simp add: ulp.simps [of 9007199254740992] ulp_small)

lemma roundDouble_exact: "\<bar>x\<bar> \<le> 2 ^ 53 \<Longrightarrow> roundDouble x = x"
proof (cases "\<bar>x\<bar> < 9007199254740992")
  case True
  then show ?thesis
    by (simp add: roundDouble_def ulp_small Let_def) (simp add: sgn_if)
next
  case False
  assume "\<bar>x\<bar> \<le> 2 ^ 53"
  with False have a: "\<bar>x\<bar> = 9007199254740992"
    by simp
  then have "sgn x * 9007199254740992 = x"
    by (simp add: sgn_if) linarith
  with a show ?thesis
    by (simp add: roundDouble_def ulp_edge Let_def)
qed

text \<open>On safe integers the addition of doubles is the addition of integers.\<close>

lemma jsAdd_exact: "\<bar>i\<bar> < 2 ^ 53 \<Longrightarrow> jsAdd i (if b then 1 else 0) = i + (if b then 1 else 0)"
  by (simp add: jsAdd_def roundDouble_exact)


lemma reports_while_minimized:
  "isMinimized s \<Longrightarrow> \<not> isForcedDismissed s \<Longrightarrow> run p (map EngineChange js) s = (s, [])"
  by (induction js) (simp_all add: handleOnChange_def)

lemma run_append:
  "run p (xs @ ys) s =
     (fst (run p ys (fst (run p xs s))), snd (run p xs s) @ snd (run p ys (fst (run p xs s))))"
  by (induction xs arbitrary: s) (simp_all add: split_beta Let_def)

lemma dismissals_doDismiss: "providedOnDismiss p \<Longrightarrow> dismissals (snd (doDismiss p s)) = 1"
  by (simp add: doDismiss_def dismissals_def)

text \<open>
  The states used for concrete instances arise from the initial one: a presentation
  whose engine settles at raw index 1, the same after a forced dismissal that came before
  the pending present ran (the forced flag stays set), and a minimisation.
\<close>

lemma presented_reachable:
  "run panProps [Present, AnimationFrame, Commit, EngineChange 1] initial
     = (presented, [MountSheet ''sheet'', OnChange 0])"
  by (simp add: panProps_def initial_def presented_def handlePresent_def presentFrame_def
      handleOnChange_def adjustedIndex_def index_def key_def)

lemma forced_flag_reachable:
  "run panProps [Present, Dismiss True, AnimationFrame, Commit, EngineChange 1] initial
     = (presented\<lparr>isForcedDismissed := True\<rparr>, [MountSheet ''sheet'', OnChange 0])"
  by (simp add: panProps_def initial_def presented_def handlePresent_def handleDismiss_def
      presentFrame_def handleOnChange_def adjustedIndex_def engine_def index_def key_def)

lemma minimized_reachable:
  "run panProps [Minimize] presented = (minimized, [EngineClose])"
  by (simp add: presented_def minimized_def handleMinimize_def engine_def)

subsection \<open>Present, then dismiss at once\<close>

text \<open>
  Claim C1, as the code has it. \<^verbatim>\<open>present()\<close> only queues its mutation, and
  \<^verbatim>\<open>dismiss(force)\<close> on a modal that was never presented finds no sheet instance and
  is not minimized: it invokes no dismiss callback and issues no engine command, it
  notifies the host of the unmount to come when \<open>force\<close> is false, and it leaves the state
  as it was but for \<open>isForcedDismissed = force\<close>. Nothing cancels the queued callback: on
  the next animation frame it sets \<open>nextIndexRef\<close> to the adjusted initial index, sets
  \<open>mount\<close> and registers the modal with the host. The dismiss callback has still not been
  invoked.
\<close>

theorem present_then_dismiss:
  "run p [Present, Dismiss force] initial =
     (initial\<lparr>isForcedDismissed := force, frames := [(index p, key p)]\<rparr>,
      if force then [] else [WillUnmountSheet (key p)])
   \<and> run p [Present, Dismiss force, AnimationFrame] initial =
     (initial\<lparr>isForcedDismissed := force, nextIndexRef := index p, mount := True\<rparr>,
      (if force then [] else [WillUnmountSheet (key p)]) @ [MountSheet (key p)])
   \<and> dismissals (snd (run p [Present, Dismiss force, AnimationFrame] initial)) = 0"
  by (simp add: initial_def handlePresent_def handleDismiss_def presentFrame_def
      engine_def dismissals_def)

theorem present_then_dismiss_witness:
  "run panProps [Present, Dismiss False, AnimationFrame] initial =
     (initial\<lparr>nextIndexRef := 1, mount := True\<rparr>,
      [WillUnmountSheet ''sheet'', MountSheet ''sheet''])"
  using present_then_dismiss [of panProps False]
  by (simp add: initial_def index_def key_def panProps_def)

text \<open>
  The statement that one dismiss callback is invoked and that the modal ends as if never
  presented fails: with a dismiss callback supplied, the callback is invoked neither by
  \<^verbatim>\<open>dismiss()\<close> nor by the frame, and after the frame the modal is mounted with
  intended index 1. After \<^verbatim>\<open>dismiss(true)\<close> the forced flag stays set as well.
\<close>

theorem present_then_dismiss_counterexample:
  "dismissals (snd (run panProps [Present, Dismiss False] initial)) = 0
   \<and> dismissals (snd (run panProps [Present, Dismiss False, AnimationFrame] initial)) = 0
   \<and> mount (fst (run panProps [Present, Dismiss False, AnimationFrame] initial))
   \<and> nextIndexRef (fst (run panProps [Present, Dismiss False, AnimationFrame] initial)) = 1
   \<and> isForcedDismissed (fst (run panProps [Present, Dismiss True, AnimationFrame] initial))"
  by (simp add: panProps_def initial_def handlePresent_def handleDismiss_def presentFrame_def
      engine_def index_def key_def dismissals_def)

text \<open>
  Once React has committed the render and the engine has settled at the initial snap
  point, the modal is in the state of an ordinary presentation.
\<close>

lemma uncancelled_present_goes_on:
  "run panProps [Present, Dismiss False, AnimationFrame, Commit, EngineChange 1] initial
     = (presented, [WillUnmountSheet ''sheet'', MountSheet ''sheet'', OnChange 0])"
  by (simp add: panProps_def initial_def presented_def handlePresent_def handleDismiss_def
      presentFrame_def handleOnChange_def adjustedIndex_def engine_def index_def key_def)

subsection \<open>Index and snap point adjustment\<close>

text \<open>
  Claim C5. With \<open>dismissOnPanDown\<close> the adjusted index is the caller's index plus one
  and the adjusted snap points are the caller's with \<open>0\<close> in front; without it both are
  the caller's. Undoing the adjustment, as \<^verbatim>\<open>handleOnChange\<close> does, gives the caller's
  index back, both for the initial index and for the index \<^verbatim>\<open>snapTo\<close> computes. The
  adjusted snap point list is one longer exactly when \<open>dismissOnPanDown\<close> is set.
\<close>

theorem index_snapPoints_adjustment:
  "(dismissOnPanDown p \<longrightarrow>
      index p = providedIndex p + 1 \<and> snapPoints p = SnapNumber 0 # providedSnapPoints p)
   \<and> (\<not> dismissOnPanDown p \<longrightarrow>
      index p = providedIndex p \<and> snapPoints p = providedSnapPoints p)
   \<and> adjustedIndex p (index p) = providedIndex p
   \<and> adjustedIndex p (i + (if dismissOnPanDown p then 1 else 0)) = i
   \<and> length (snapPoints p)
       = length (providedSnapPoints p) + (if dismissOnPanDown p then 1 else 0)"
  by (simp add: index_def snapPoints_def adjustedIndex_def)

theorem index_snapPoints_adjustment_witness:
  "index panProps = 1
   \<and> snapPoints panProps = [SnapNumber 0, SnapNumber 300, SnapNumber 500]
   \<and> adjustedIndex panProps (index panProps) = 0
   \<and> length (snapPoints panProps) = 3
   \<and> index plainProps = 0
   \<and> snapPoints plainProps = [SnapNumber 300, SnapNumber 500]"
  using index_snapPoints_adjustment [of panProps 0]
    index_snapPoints_adjustment [of plainProps 0]
  by (simp add: panProps_def plainProps_def)

subsection \<open>Dismissal\<close>

text \<open>
  Claim C2, as the code has it. \<^verbatim>\<open>dismiss(true)\<close> on a minimized modal tears down
  at once: flags and indices reset, \<open>mount\<close> cleared, the sheet and the portal
  unregistered, the dismiss callback invoked, and no engine command. \<^verbatim>\<open>dismiss(true)\<close>
  on a modal that is not minimized sets \<open>isForcedDismissed\<close>, clears \<open>isMinimized\<close>
  and sets \<open>nextIndexRef\<close> to \<open>-1\<close>. \<^verbatim>\<open>dismiss(false)\<close>, in any state, sets
  \<open>nextIndexRef\<close> to \<open>-1\<close> and tells the host that the sheet will unmount. In these
  cases the engine's close is issued when a sheet instance is attached
  (\<^verbatim>\<open>bottomSheetRef.current\<close> is not \<^verbatim>\<open>null\<close>), and no engine command otherwise;
  nothing is torn down by the call. The teardown is left to a later engine report. When
  the modal was not minimized, a report whose caller-facing index is negative performs
  exactly the teardown of an immediate forced dismissal. After \<^verbatim>\<open>dismiss(false)\<close> on a
  minimized modal with no forced dismissal flagged, the report is ignored and nothing is
  torn down.
\<close>

theorem dismiss_state_machine:
  "(isMinimized s \<longrightarrow>
      handleDismiss p True s =
        (s\<lparr>isMinimized := False, isForcedDismissed := False,
           currentIndexRef := - 1, nextIndexRef := - 1, mount := False\<rparr>,
         [UnmountSheet (key p), UnmountPortal (key p)]
           @ (if providedOnDismiss p then [OnDismiss] else [])))
   \<and> (\<not> isMinimized s \<longrightarrow>
      handleDismiss p True s =
        (s\<lparr>isForcedDismissed := True, isMinimized := False, nextIndexRef := - 1\<rparr>,
         if bottomSheetRef s then [EngineClose] else []))
   \<and> handleDismiss p False s =
        (s\<lparr>nextIndexRef := - 1\<rparr>,
         WillUnmountSheet (key p) # (if bottomSheetRef s then [EngineClose] else []))
   \<and> (\<not> isMinimized s \<and> adjustedIndex p i < 0 \<longrightarrow>
        handleOnChange p i (fst (handleDismiss p force s)) = doDismiss p s)
   \<and> (isMinimized s \<and> \<not> isForcedDismissed s \<longrightarrow>
        handleOnChange p i (fst (handleDismiss p False s))
          = (fst (handleDismiss p False s), []))"
  by (simp add: handleDismiss_def handleOnChange_def doDismiss_def engine_def)

theorem dismiss_state_machine_witness:
  "handleDismiss panProps True minimized =
     (minimized\<lparr>isMinimized := False, isForcedDismissed := False,
        currentIndexRef := - 1, nextIndexRef := - 1, mount := False\<rparr>,
      [UnmountSheet ''sheet'', UnmountPortal ''sheet'', OnDismiss])
   \<and> handleDismiss panProps True presented =
     (presented\<lparr>isForcedDismissed := True, isMinimized := False, nextIndexRef := - 1\<rparr>,
      [EngineClose])
   \<and> handleDismiss panProps False presented =
     (presented\<lparr>nextIndexRef := - 1\<rparr>, [WillUnmountSheet ''sheet'', EngineClose])
   \<and> handleDismiss panProps False initial =
     (initial\<lparr>nextIndexRef := - 1\<rparr>, [WillUnmountSheet ''sheet''])
   \<and> handleOnChange panProps 0 (fst (handleDismiss panProps False presented))
       = doDismiss panProps presented
   \<and> handleOnChange panProps 0 (fst (handleDismiss panProps True presented))
       = doDismiss panProps presented
   \<and> handleOnChange panProps 0 (fst (handleDismiss panProps False minimized))
       = (minimized\<lparr>nextIndexRef := - 1\<rparr>, [])"
proof -
  have m: "isMinimized minimized" "\<not> isForcedDismissed minimized"
    by (simp_all add: minimized_def presented_def)
  have q: "\<not> isMinimized presented" "bottomSheetRef presented" "\<not> bottomSheetRef initial"
    by (simp_all add: presented_def initial_def)
  have a: "adjustedIndex panProps 0 < 0"
    by (simp add: adjustedIndex_def panProps_def)
  have k: "key panProps = ''sheet''" "providedOnDismiss panProps"
    by (simp_all add: key_def panProps_def)
  show ?thesis
    using dismiss_state_machine [of minimized panProps 0 False]
      dismiss_state_machine [of presented panProps 0 False]
      dismiss_state_machine [of presented panProps 0 True]
      dismiss_state_machine [of initial panProps 0 False] m q a k
    by auto
qed

text \<open>
  The claim as stated fails twice. The teardown does not follow at the engine's change
  report after \<^verbatim>\<open>dismiss(false)\<close> on a minimized modal: the report of the closed
  position changes nothing, the modal stays mounted and minimized, and the dismiss
  callback is not invoked. And on a modal with no sheet attached, which is not minimized,
  \<^verbatim>\<open>dismiss\<close> issues no engine close.
\<close>

theorem dismiss_state_machine_counterexample:
  "run panProps [Dismiss False, EngineChange (- 1)] minimized
     = (minimized\<lparr>nextIndexRef := - 1\<rparr>, [WillUnmountSheet ''sheet'', EngineClose])
   \<and> mount (fst (run panProps [Dismiss False, EngineChange (- 1)] minimized))
   \<and> isMinimized (fst (run panProps [Dismiss False, EngineChange (- 1)] minimized))
   \<and> dismissals (snd (run panProps [Dismiss False, EngineChange (- 1)] minimized)) = 0
   \<and> \<not> isMinimized initial
   \<and> snd (handleDismiss panProps False initial) = [WillUnmountSheet ''sheet'']
   \<and> snd (handleDismiss panProps True initial) = []"
  by (simp add: minimized_def presented_def initial_def panProps_def handleDismiss_def
      handleOnChange_def engine_def key_def dismissals_def)

subsection \<open>Engine change reports\<close>

text \<open>
  Claim C3. A change report that arrives while the modal is minimized and no forced
  dismissal is in flight changes no field of the state and calls nothing, neither
  \<^verbatim>\<open>onChange\<close> nor \<^verbatim>\<open>onDismiss\<close>; so does every sequence of such reports.
\<close>

theorem minimized_ignores_reports:
  "isMinimized s \<Longrightarrow> \<not> isForcedDismissed s \<Longrightarrow>
     handleOnChange p i s = (s, []) \<and> run p (map EngineChange js) s = (s, [])"
  by (simp add: reports_while_minimized) (simp add: handleOnChange_def)

theorem minimized_ignores_reports_witness:
  "handleOnChange panProps 2 minimized = (minimized, [])
   \<and> run panProps [EngineChange 2, EngineChange 0, EngineChange (- 1)] minimized
       = (minimized, [])"
proof -
  have m: "isMinimized minimized" "\<not> isForcedDismissed minimized"
    by (simp_all add: minimized_def presented_def)
  have "map EngineChange [2, 0, - 1] = [EngineChange 2, EngineChange 0, EngineChange (- 1)]"
    by simp
  then show ?thesis
    using minimized_ignores_reports [OF m, of panProps 2 "[2, 0, - 1]"] by metis
qed

text \<open>
  Claim C4. A change report that passes the minimized guard and whose caller-facing index
  (the raw index minus one with \<open>dismissOnPanDown\<close>, the raw index otherwise) is negative
  tears down once: \<open>isMinimized\<close> and \<open>isForcedDismissed\<close> cleared, both indices
  \<open>-1\<close>, \<open>mount\<close> cleared, the sheet unregistered from the host and from the portal,
  and the caller's dismiss callback, when supplied, invoked exactly once, whether or not
  \<^verbatim>\<open>dismiss()\<close> was called before. When the caller-facing index is not negative the
  report stores the raw index in both refs and passes the caller-facing index to the
  caller's change callback, with no teardown.
\<close>

theorem engine_report_dispatch:
  "\<not> (isMinimized s \<and> \<not> isForcedDismissed s) \<Longrightarrow>
     (adjustedIndex p i < 0 \<longrightarrow>
        handleOnChange p i s =
          (s\<lparr>isMinimized := False, isForcedDismissed := False,
             currentIndexRef := - 1, nextIndexRef := - 1, mount := False\<rparr>,
           [UnmountSheet (key p), UnmountPortal (key p)]
             @ (if providedOnDismiss p then [OnDismiss] else []))
        \<and> (providedOnDismiss p \<longrightarrow> dismissals (snd (handleOnChange p i s)) = 1))
   \<and> (0 \<le> adjustedIndex p i \<longrightarrow>
        handleOnChange p i s =
          (s\<lparr>currentIndexRef := i, nextIndexRef := i\<rparr>,
           if providedOnChange p then [OnChange (adjustedIndex p i)] else []))"
  by (auto simp add: handleOnChange_def doDismiss_def dismissals_def Let_def)

theorem engine_report_dispatch_witness:
  "handleOnChange panProps 0 presented =
     (presented\<lparr>isMinimized := False, isForcedDismissed := False,
        currentIndexRef := - 1, nextIndexRef := - 1, mount := False\<rparr>,
      [UnmountSheet ''sheet'', UnmountPortal ''sheet'', OnDismiss])
   \<and> dismissals (snd (handleOnChange panProps 0 presented)) = 1
   \<and> handleOnChange panProps 2 presented =
     (presented\<lparr>currentIndexRef := 2, nextIndexRef := 2\<rparr>, [OnChange 1])"
proof -
  have g: "\<not> (isMinimized presented \<and> \<not> isForcedDismissed presented)"
    by (simp add: presented_def)
  have a: "adjustedIndex panProps 0 < 0" "0 \<le> adjustedIndex panProps 2"
    "adjustedIndex panProps 2 = 1"
    by (simp_all add: adjustedIndex_def panProps_def)
  have k: "key panProps = ''sheet''" "providedOnDismiss panProps" "providedOnChange panProps"
    by (simp_all add: key_def panProps_def)
  show ?thesis
    using engine_report_dispatch [OF g, of panProps 0]
      engine_report_dispatch [OF g, of panProps 2] a k
    by auto
qed

text \<open>
  Claim C9. After a change report that passes the minimized guard, \<open>currentIndexRef\<close>
  and \<open>nextIndexRef\<close> are equal. Both receive the raw index first: the change callback
  is invoked in the state that holds it, and the teardown starts from that state and
  leaves both at \<open>-1\<close>.
\<close>

theorem report_aligns_indices:
  "\<not> (isMinimized s \<and> \<not> isForcedDismissed s) \<Longrightarrow>
     currentIndexRef (fst (handleOnChange p i s)) = nextIndexRef (fst (handleOnChange p i s))
   \<and> (0 \<le> adjustedIndex p i \<longrightarrow>
        fst (handleOnChange p i s) = s\<lparr>currentIndexRef := i, nextIndexRef := i\<rparr>)
   \<and> (adjustedIndex p i < 0 \<longrightarrow>
        handleOnChange p i s = doDismiss p (s\<lparr>currentIndexRef := i, nextIndexRef := i\<rparr>)
        \<and> currentIndexRef (fst (handleOnChange p i s)) = - 1)"
  by (auto simp add: handleOnChange_def doDismiss_def Let_def)

theorem report_aligns_indices_witness:
  "currentIndexRef (fst (handleOnChange panProps 2 (presented\<lparr>currentIndexRef := 3\<rparr>)))
     = nextIndexRef (fst (handleOnChange panProps 2 (presented\<lparr>currentIndexRef := 3\<rparr>)))
   \<and> currentIndexRef (fst (handleOnChange panProps 2 (presented\<lparr>currentIndexRef := 3\<rparr>))) = 2
   \<and> currentIndexRef (fst (handleOnChange panProps 0 presented)) = - 1
   \<and> nextIndexRef (fst (handleOnChange panProps 0 presented)) = - 1"
proof -
  let ?s = "presented\<lparr>currentIndexRef := 3\<rparr>"
  have g: "\<not> (isMinimized ?s \<and> \<not> isForcedDismissed ?s)"
    "\<not> (isMinimized presented \<and> \<not> isForcedDismissed presented)"
    by (simp_all add: presented_def)
  have a: "adjustedIndex panProps 0 < 0" "0 \<le> adjustedIndex panProps 2"
    by (simp_all add: adjustedIndex_def panProps_def)
  show ?thesis
    using report_aligns_indices [OF g(1), of panProps 2]
      report_aligns_indices [OF g(2), of panProps 0] a
    by auto
qed

subsection \<open>Close, collapse, expand and snapTo\<close>

text \<open>
  Claim C6, as the code has it. On a modal that is not minimized, \<^verbatim>\<open>close()\<close> sets
  \<open>nextIndexRef\<close> to \<open>-1\<close>; \<^verbatim>\<open>collapse()\<close> sets it to 1 with \<open>dismissOnPanDown\<close>
  and to 0 without; \<^verbatim>\<open>expand()\<close> sets it to the length of the adjusted snap points
  minus one; \<^verbatim>\<open>snapTo(i)\<close>, for an integer \<open>i\<close> of magnitude below \<open>2^53\<close>, sets it
  to \<open>i + 1\<close> with \<open>dismissOnPanDown\<close> and to \<open>i\<close> without. When a sheet instance is
  attached (\<^verbatim>\<open>bottomSheetRef.current\<close> is not \<^verbatim>\<open>null\<close>) each then issues its engine
  command: close, snapTo with the new \<open>nextIndexRef\<close>, expand, snapTo with the new
  \<open>nextIndexRef\<close>. With no sheet attached none issues an engine command.
\<close>

theorem visual_commands:
  "\<not> isMinimized s \<Longrightarrow>
     handleClose s
       = (s\<lparr>nextIndexRef := - 1\<rparr>, if bottomSheetRef s then [EngineClose] else [])
   \<and> handleCollapse p s
       = (s\<lparr>nextIndexRef := (if dismissOnPanDown p then 1 else 0)\<rparr>,
          if bottomSheetRef s
          then [EngineSnapTo (if dismissOnPanDown p then 1 else 0) None] else [])
   \<and> handleExpand p s
       = (s\<lparr>nextIndexRef := int (length (snapPoints p)) - 1\<rparr>,
          if bottomSheetRef s then [EngineExpand] else [])
   \<and> (\<bar>i\<bar> < 2 ^ 53 \<longrightarrow>
        handleSnapTo p i s
          = (s\<lparr>nextIndexRef := (if dismissOnPanDown p then i + 1 else i)\<rparr>,
             if bottomSheetRef s
             then [EngineSnapTo (if dismissOnPanDown p then i + 1 else i) None] else []))"
proof -
  assume n: "\<not> isMinimized s"
  have "handleSnapTo p i s
          = (s\<lparr>nextIndexRef := (if dismissOnPanDown p then i + 1 else i)\<rparr>,
             if bottomSheetRef s
             then [EngineSnapTo (if dismissOnPanDown p then i + 1 else i) None] else [])"
    if "\<bar>i\<bar> < 2 ^ 53"
    using n jsAdd_exact [OF that, of "dismissOnPanDown p"]
    by (simp add: handleSnapTo_def engine_def Let_def)
  then show ?thesis
    using n by (simp add: handleClose_def handleCollapse_def handleExpand_def engine_def Let_def)
qed

theorem visual_commands_witness:
  "handleClose presented = (presented\<lparr>nextIndexRef := - 1\<rparr>, [EngineClose])
   \<and> handleCollapse panProps presented
       = (presented\<lparr>nextIndexRef := 1\<rparr>, [EngineSnapTo 1 None])
   \<and> handleCollapse plainProps presented
       = (presented\<lparr>nextIndexRef := 0\<rparr>, [EngineSnapTo 0 None])
   \<and> handleExpand panProps presented = (presented\<lparr>nextIndexRef := 2\<rparr>, [EngineExpand])
   \<and> handleExpand plainProps presented = (presented\<lparr>nextIndexRef := 1\<rparr>, [EngineExpand])
   \<and> handleSnapTo panProps 1 presented
       = (presented\<lparr>nextIndexRef := 2\<rparr>, [EngineSnapTo 2 None])
   \<and> handleSnapTo plainProps 1 presented
       = (presented\<lparr>nextIndexRef := 1\<rparr>, [EngineSnapTo 1 None])
   \<and> handleSnapTo panProps 1 initial = (initial\<lparr>nextIndexRef := 2\<rparr>, [])"
proof -
  have q: "\<not> isMinimized presented" and r: "bottomSheetRef presented"
    by (simp_all add: presented_def)
  have q': "\<not> isMinimized initial" and r': "\<not> bottomSheetRef initial"
    by (simp_all add: initial_def)
  have d: "dismissOnPanDown panProps" "\<not> dismissOnPanDown plainProps"
    by (simp_all add: panProps_def plainProps_def)
  have l: "length (snapPoints panProps) = 3" "length (snapPoints plainProps) = 2"
    by (simp_all add: snapPoints_def panProps_def plainProps_def)
  have b: "\<bar>1::int\<bar> < 2 ^ 53"
    by simp
  show ?thesis
    using visual_commands [OF q, of panProps 1] visual_commands [OF q, of plainProps 1]
      visual_commands [OF q', of panProps 1] r r' d l b
    by auto
qed

text \<open>
  The claim as stated, with being not minimized as its only condition, fails on a modal
  that was never presented: it is not minimized, and none of the four commands issues an
  engine command there.
\<close>

theorem visual_commands_counterexample:
  "\<not> isMinimized initial
   \<and> snd (handleClose initial) = []
   \<and> snd (handleCollapse panProps initial) = []
   \<and> snd (handleExpand panProps initial) = []
   \<and> snd (handleSnapTo panProps 1 initial) = []"
  by (simp add: initial_def handleClose_def handleCollapse_def handleExpand_def
      handleSnapTo_def engine_def Let_def)

text \<open>
  Claim C8. On a minimized modal each of \<^verbatim>\<open>close()\<close>, \<^verbatim>\<open>collapse()\<close>,
  \<^verbatim>\<open>expand()\<close> and \<^verbatim>\<open>snapTo(i)\<close> returns at once: the state is unchanged in
  every field and nothing is called, the engine included. The functions have no failing
  branch.
\<close>

theorem commands_ignored_while_minimized:
  "isMinimized s \<Longrightarrow>
     handleClose s = (s, []) \<and> handleCollapse p s = (s, [])
     \<and> handleExpand p s = (s, []) \<and> handleSnapTo p i s = (s, [])"
  by (simp add: handleClose_def handleCollapse_def handleExpand_def handleSnapTo_def)

theorem commands_ignored_while_minimized_witness:
  "handleClose minimized = (minimized, []) \<and> handleCollapse panProps minimized = (minimized, [])
   \<and> handleExpand panProps minimized = (minimized, [])
   \<and> handleSnapTo panProps 1 minimized = (minimized, [])"
proof -
  have m: "isMinimized minimized"
    by (simp add: minimized_def)
  show ?thesis
    using commands_ignored_while_minimized [OF m, of panProps 1] .
qed




subsection \<open>Minimize and restore\<close>

text \<open>
  Claim C7, as the code has it. \<^verbatim>\<open>minimize()\<close> on a modal that is not minimized sets
  \<open>isMinimized\<close>; every other field, \<open>currentIndexRef\<close>, \<open>nextIndexRef\<close> and
  \<open>isForcedDismissed\<close> among them, is unchanged. \<^verbatim>\<open>restore()\<close> on a minimized modal
  clears \<open>isMinimized\<close>. When a sheet instance is attached the first issues the engine's
  close and the second the engine's \<^verbatim>\<open>snapTo(nextIndex, true)\<close>; with no sheet
  attached neither issues an engine command. \<^verbatim>\<open>minimize()\<close> followed by
  \<^verbatim>\<open>restore()\<close> gives back the state it started from, with the kept
  \<open>nextIndexRef\<close>, and invokes no dismiss callback, when no engine report arrives in
  between, and also when reports arrive in between and \<open>isForcedDismissed\<close> is false.
  When \<open>isForcedDismissed\<close> is true, a report in between whose caller-facing index is
  negative tears the modal down, dismiss callback included, and the \<^verbatim>\<open>restore()\<close>
  that follows does nothing. \<^verbatim>\<open>minimize()\<close> on a minimized modal and
  \<^verbatim>\<open>restore()\<close> on one that is not minimized do nothing.
\<close>

theorem minimize_restore:
  "(\<not> isMinimized s \<longrightarrow>
      handleMinimize s
        = (s\<lparr>isMinimized := True\<rparr>, if bottomSheetRef s then [EngineClose] else []))
   \<and> (isMinimized s \<longrightarrow>
      handleRestore s
        = (s\<lparr>isMinimized := False\<rparr>,
           if bottomSheetRef s then [EngineSnapTo (nextIndexRef s) (Some True)] else []))
   \<and> (\<not> isMinimized s \<longrightarrow>
      run p [Minimize, Restore] s
        = (s, if bottomSheetRef s
              then [EngineClose, EngineSnapTo (nextIndexRef s) (Some True)] else []))
   \<and> (\<not> isMinimized s \<and> \<not> isForcedDismissed s \<longrightarrow>
      run p (Minimize # map EngineChange js @ [Restore]) s
        = (s, if bottomSheetRef s
              then [EngineClose, EngineSnapTo (nextIndexRef s) (Some True)] else []))
   \<and> (\<not> isMinimized s \<and> isForcedDismissed s \<and> adjustedIndex p i < 0 \<longrightarrow>
      run p [Minimize, EngineChange i, Restore] s
        = (fst (doDismiss p s),
           (if bottomSheetRef s then [EngineClose] else []) @ snd (doDismiss p s)))
   \<and> (isMinimized s \<longrightarrow> handleMinimize s = (s, []))
   \<and> (\<not> isMinimized s \<longrightarrow> handleRestore s = (s, []))"
proof (cases "isMinimized s")
  case True
  then show ?thesis
    by (simp add: handleMinimize_def handleRestore_def engine_def Let_def)
next
  case False
  let ?m = "s\<lparr>isMinimized := True\<rparr>"
  let ?snap = "EngineSnapTo (nextIndexRef s) (Some True)"
  have single: "handleMinimize s = (?m, engine s EngineClose)" "handleRestore s = (s, [])"
    "handleRestore ?m = (s, engine s ?snap)"
    using False by (simp_all add: handleMinimize_def handleRestore_def engine_def Let_def)
  have direct: "run p [Minimize, Restore] s = (s, engine s EngineClose @ engine s ?snap)"
    by (simp add: single)
  have between:
    "run p (Minimize # map EngineChange js @ [Restore]) s
       = (s, engine s EngineClose @ engine s ?snap)"
    if quiet: "\<not> isForcedDismissed s"
  proof -
    have "run p (map EngineChange js) ?m = (?m, [])"
      using quiet by (simp add: reports_while_minimized)
    then have "run p (map EngineChange js @ [Restore]) ?m = (s, engine s ?snap)"
      by (simp add: run_append single)
    then show ?thesis
      by (simp add: single)
  qed
  have forced:
    "run p [Minimize, EngineChange i, Restore] s
       = (fst (doDismiss p s), engine s EngineClose @ snd (doDismiss p s))"
    if "isForcedDismissed s" "adjustedIndex p i < 0"
    using that
    by (simp add: single handleOnChange_def doDismiss_def handleRestore_def)
  show ?thesis
    using False between forced
    by (simp del: run.simps add: direct single engine_def)
qed

theorem minimize_restore_witness:
  "handleMinimize presented = (minimized, [EngineClose])
   \<and> handleRestore minimized = (presented, [EngineSnapTo 1 (Some True)])
   \<and> run panProps [Minimize, Restore] presented
       = (presented, [EngineClose, EngineSnapTo 1 (Some True)])
   \<and> run panProps [Minimize, EngineChange (- 1), EngineChange 0, Restore] presented
       = (presented, [EngineClose, EngineSnapTo 1 (Some True)])
   \<and> run panProps [Minimize, EngineChange 0, Restore] (presented\<lparr>isForcedDismissed := True\<rparr>)
       = (fst (doDismiss panProps (presented\<lparr>isForcedDismissed := True\<rparr>)),
          EngineClose # snd (doDismiss panProps (presented\<lparr>isForcedDismissed := True\<rparr>)))
   \<and> handleMinimize initial = (initial\<lparr>isMinimized := True\<rparr>, [])
   \<and> handleMinimize minimized = (minimized, [])
   \<and> handleRestore presented = (presented, [])"
proof -
  let ?f = "presented\<lparr>isForcedDismissed := True\<rparr>"
  have q: "\<not> isMinimized presented" "bottomSheetRef presented" "\<not> isForcedDismissed presented"
    "nextIndexRef presented = 1" "presented\<lparr>isMinimized := True\<rparr> = minimized"
    by (simp_all add: presented_def minimized_def)
  have m: "isMinimized minimized" "bottomSheetRef minimized" "nextIndexRef minimized = 1"
    "minimized\<lparr>isMinimized := False\<rparr> = presented"
    by (simp_all add: presented_def minimized_def)
  have f: "\<not> isMinimized ?f" "isForcedDismissed ?f" "bottomSheetRef ?f"
    "adjustedIndex panProps 0 < 0"
    by (simp_all add: presented_def adjustedIndex_def panProps_def)
  have n: "\<not> isMinimized initial" "\<not> bottomSheetRef initial"
    by (simp_all add: initial_def)
  have j: "Minimize # map EngineChange [- 1, 0] @ [Restore]
      = [Minimize, EngineChange (- 1), EngineChange 0, Restore]"
    by simp
  have a: "handleMinimize presented = (minimized, [EngineClose])"
    "run panProps [Minimize, Restore] presented
       = (presented, [EngineClose, EngineSnapTo 1 (Some True)])"
    "run panProps [Minimize, EngineChange (- 1), EngineChange 0, Restore] presented
       = (presented, [EngineClose, EngineSnapTo 1 (Some True)])"
    "handleRestore presented = (presented, [])"
    using minimize_restore [of presented panProps "[- 1, 0]" 0] q unfolding j
    by (simp_all del: run.simps)
  have b: "handleRestore minimized = (presented, [EngineSnapTo 1 (Some True)])"
    "handleMinimize minimized = (minimized, [])"
    using minimize_restore [of minimized panProps "[]" 0] m
    by (simp_all del: run.simps)
  have c: "run panProps [Minimize, EngineChange 0, Restore] ?f
       = (fst (doDismiss panProps ?f), EngineClose # snd (doDismiss panProps ?f))"
    using minimize_restore [of ?f panProps "[]" 0] f
    by (simp del: run.simps)
  have e: "handleMinimize initial = (initial\<lparr>isMinimized := True\<rparr>, [])"
    using minimize_restore [of initial panProps "[]" 0] n
    by (simp del: run.simps)
  from a b c e show ?thesis
    by simp
qed

text \<open>
  The claim as stated fails twice. On a modal with no sheet attached \<^verbatim>\<open>minimize()\<close>
  and the \<^verbatim>\<open>restore()\<close> after it issue no engine command. And on a presented modal
  whose forced flag is set, the engine's report of the closed position between
  \<^verbatim>\<open>minimize()\<close> and \<^verbatim>\<open>restore()\<close> tears the modal down and invokes the dismiss
  callback once.
\<close>

theorem minimize_restore_counterexample:
  "\<not> isMinimized initial
   \<and> snd (handleMinimize initial) = []
   \<and> snd (handleRestore (fst (handleMinimize initial))) = []
   \<and> dismissals (snd (run panProps [Minimize, EngineChange (- 1), Restore]
        (presented\<lparr>isForcedDismissed := True\<rparr>))) = 1
   \<and> \<not> mount (fst (run panProps [Minimize, EngineChange (- 1), Restore]
        (presented\<lparr>isForcedDismissed := True\<rparr>)))"
  by (simp add: initial_def presented_def panProps_def handleMinimize_def handleRestore_def
      handleOnChange_def doDismiss_def adjustedIndex_def engine_def dismissals_def Let_def)

end
